theory Spec2Isabelle
  imports Main
begin

section \<open>The Demo Jam API: an in-memory CRUD store of items\<close>

text \<open>
  The program keeps one global slice \<open>items\<close> of \<open>Item\<close> structs and serves five HTTP
  handlers over it. Every handler touches the slice only while it holds \<open>itemsLock\<close>, so
  a handler is modelled as one atomic step: a function from the slice before the call
  (and the request) to the response written and the slice after the call.
\<close>

subsection \<open>Data model\<close>

record Item =
  ID :: string
  Name :: string
  Description :: string

text \<open>The zero value of \<open>Item\<close>, what \<open>var item Item\<close> declares.\<close>

definition zeroItem :: Item where
  "zeroItem = \<lparr>ID = [], Name = [], Description = []\<rparr>"

text \<open>
  What a handler passes to \<open>respondWithJSON\<close>: one item, the slice of items, or a
  \<open>map[string]string\<close>, given by the entries of its literal (their keys are distinct).
\<close>

datatype payload =
    PItem Item
  | PItems "Item list"
  | PMap "(string \<times> string) list"

record response =
  code :: nat
  body :: payload

definition StatusOK :: nat where "StatusOK = 200"
definition StatusCreated :: nat where "StatusCreated = 201"
definition StatusBadRequest :: nat where "StatusBadRequest = 400"
definition StatusNotFound :: nat where "StatusNotFound = 404"

text \<open>
  \<open>respondWithJSON\<close> marshals the payload and writes the status code and the bytes.
  \<open>json.Marshal\<close> has no error for a struct of strings, a slice of such structs or a
  map from strings to strings, so the branch that answers 500 is never taken for the
  payloads of this program; the response is modelled as the status code with the value
  that is marshalled.
\<close>

definition respondWithJSON :: "nat \<Rightarrow> payload \<Rightarrow> response" where
  "respondWithJSON c p = \<lparr>code = c, body = p\<rparr>"

definition respondWithError :: "nat \<Rightarrow> string \<Rightarrow> response" where
  "respondWithError c message = respondWithJSON c (PMap [(''error'', message)])"

subsection \<open>Decoding a request body (encoding/json)\<close>

text \<open>
  The handlers call \<open>json.NewDecoder(r.Body).Decode\<close> on a zero \<open>Item\<close>. The decoder is
  the Go standard library's; it is modelled on JSON values rather than on bytes. A body
  is either empty (\<open>Decode\<close> returns \<open>io.EOF\<close>), or does not begin with a complete JSON
  value (a syntax error or an unexpected end of input), or begins with a JSON value,
  which is the only one \<open>Decode\<close> reads.
\<close>

datatype json =
    JNull
  | JBool bool
  | JNumber string
  | JString string
  | JArray "json list"
  | JObject "(string \<times> json) list"

datatype json_error = EOF | SyntaxError | UnmarshalTypeError

datatype body = Empty | Malformed | Value json

text \<open>
  Object keys are matched to the struct's \<open>json\<close> tags exactly or, failing that, after
  case folding. Folding puts ASCII letters in upper case; beyond ASCII only the long s
  (U+017F, bytes C5 BF) and the Kelvin sign (U+212A, bytes E2 84 AA) fold to an ASCII
  letter, and every other byte sequence stays outside ASCII, where no tag of \<open>Item\<close> has
  a character.
\<close>

definition foldByte :: "char \<Rightarrow> char" where
  "foldByte c =
     (if (97::nat) \<le> of_char c \<and> of_char c \<le> (122::nat)
      then char_of (of_char c - (32::nat)) else c)"

fun foldName :: "string \<Rightarrow> string" where
  "foldName (c # d # e # cs) =
     (if c = CHR 0xC5 \<and> d = CHR 0xBF then CHR ''S'' # foldName (e # cs)
      else if c = CHR 0xE2 \<and> d = CHR 0x84 \<and> e = CHR 0xAA then CHR ''K'' # foldName cs
      else foldByte c # foldName (d # e # cs))"
| "foldName [c, d] =
     (if c = CHR 0xC5 \<and> d = CHR 0xBF then ''S'' else [foldByte c, foldByte d])"
| "foldName [c] = [foldByte c]"
| "foldName [] = []"

definition fieldNames :: "string list" where
  "fieldNames = [''id'', ''name'', ''description'']"

definition lookupField :: "string \<Rightarrow> string option" where
  "lookupField key =
     (if key \<in> set fieldNames then Some key
      else find (\<lambda>f. foldName f = foldName key) fieldNames)"

definition setField :: "string \<Rightarrow> string \<Rightarrow> Item \<Rightarrow> Item" where
  "setField f s item =
     (if f = ''id'' then item\<lparr>ID := s\<rparr>
      else if f = ''name'' then item\<lparr>Name := s\<rparr>
      else item\<lparr>Description := s\<rparr>)"

text \<open>Only the first error of a decoding is kept.\<close>

definition saveError :: "json_error option \<Rightarrow> json_error \<Rightarrow> json_error option" where
  "saveError saved e = (case saved of None \<Rightarrow> Some e | Some e' \<Rightarrow> Some e')"

text \<open>
  Storing a JSON value into a string field: a string is stored, \<open>null\<close> leaves the field
  as it is, and any other value is a type error, after which decoding goes on. A key
  that matches no field is skipped.
\<close>

fun object :: "(string \<times> json) list \<Rightarrow> Item \<times> json_error option \<Rightarrow> Item \<times> json_error option" where
  "object [] st = st"
| "object ((key, v) # rest) (item, saved) =
     object rest
       (case lookupField key of
          None \<Rightarrow> (item, saved)
        | Some f \<Rightarrow>
            (case v of
               JNull \<Rightarrow> (item, saved)
             | JString s \<Rightarrow> (setField f s item, saved)
             | _ \<Rightarrow> (item, saveError saved UnmarshalTypeError)))"

text \<open>
  Unmarshalling a value into the struct: \<open>null\<close> has no effect and is not an error, an
  object is decoded key by key, and a boolean, number, string or array is a type error.
\<close>

definition unmarshal :: "json \<Rightarrow> Item \<Rightarrow> json_error + Item" where
  "unmarshal v item =
     (case v of
        JNull \<Rightarrow> Inr item
      | JObject kvs \<Rightarrow>
          (case object kvs (item, None) of
             (item', None) \<Rightarrow> Inr item'
           | (item', Some e) \<Rightarrow> Inl e)
      | _ \<Rightarrow> Inl UnmarshalTypeError)"

definition Decode :: "body \<Rightarrow> Item \<Rightarrow> json_error + Item" where
  "Decode b item =
     (case b of
        Empty \<Rightarrow> Inl EOF
      | Malformed \<Rightarrow> Inl SyntaxError
      | Value v \<Rightarrow> unmarshal v item)"

subsection \<open>Formatting the id (strconv.Itoa)\<close>

definition digit :: "nat \<Rightarrow> char" where
  "digit d = ''0123456789'' ! d"

fun formatBits :: "nat \<Rightarrow> string" where
  "formatBits n = (if n < 10 then [digit n] else formatBits (n div 10) @ [digit (n mod 10)])"

definition Itoa :: "int \<Rightarrow> string" where
  "Itoa i = (if i < 0 then CHR ''-'' # formatBits (nat (- i)) else formatBits (nat i))"

subsection \<open>The handlers\<close>

text \<open>\<open>getItems\<close>: the whole slice, with 200.\<close>

definition getItems :: "Item list \<Rightarrow> response \<times> Item list" where
  "getItems items = (respondWithJSON StatusOK (PItems items), items)"

text \<open>
  \<open>getItem\<close>: the range loop over the slice, written with its index; the first item
  whose id is the one asked for is returned from inside the loop.
\<close>

function getItem_loop :: "Item list \<Rightarrow> nat \<Rightarrow> string \<Rightarrow> response option" where
  "getItem_loop items index ident =
     (if index < length items then
        (let item = items ! index in
         if ID item = ident then Some (respondWithJSON StatusOK (PItem item))
         else getItem_loop items (Suc index) ident)
      else None)"
  by pat_completeness auto
termination
  by (relation "measure (\<lambda>(items, index, ident). length items - index)") auto

definition getItem :: "Item list \<Rightarrow> string \<Rightarrow> response \<times> Item list" where
  "getItem items ident =
     (case getItem_loop items 0 ident of
        Some resp \<Rightarrow> (resp, items)
      | None \<Rightarrow> (respondWithError StatusNotFound ''Item not found'', items))"

text \<open>
  \<open>createItem\<close>: the body is decoded into a zero \<open>Item\<close>; \<open>r\<close> is the number that
  \<open>rand.Intn(1000000)\<close> returns in this call. The decoded id is overwritten.
\<close>

definition createItem :: "Item list \<Rightarrow> body \<Rightarrow> int \<Rightarrow> response \<times> Item list" where
  "createItem items b r =
     (case Decode b zeroItem of
        Inl err \<Rightarrow> (respondWithError StatusBadRequest ''Invalid request payload'', items)
      | Inr item \<Rightarrow>
          (let item = item\<lparr>ID := Itoa r\<rparr>;
               items = items @ [item]
           in (respondWithJSON StatusCreated (PItem item), items)))"

text \<open>
  \<open>updateItem\<close>: after decoding, the loop writes the two fields of \<open>items[index]\<close> in
  place and answers with \<open>items[index]\<close> as it then is.
\<close>

function updateItem_loop :: "Item list \<Rightarrow> nat \<Rightarrow> string \<Rightarrow> Item \<Rightarrow> (response \<times> Item list) option" where
  "updateItem_loop items index ident updatedItem =
     (if index < length items then
        (let item = items ! index in
         if ID item = ident then
           (let items = items[index := (items ! index)\<lparr>Name := Name updatedItem\<rparr>];
                items = items[index := (items ! index)\<lparr>Description := Description updatedItem\<rparr>]
            in Some (respondWithJSON StatusOK (PItem (items ! index)), items))
         else updateItem_loop items (Suc index) ident updatedItem)
      else None)"
  by pat_completeness auto
termination
  by (relation "measure (\<lambda>(items, index, ident, updatedItem). length items - index)") auto

definition updateItem :: "Item list \<Rightarrow> string \<Rightarrow> body \<Rightarrow> response \<times> Item list" where
  "updateItem items ident b =
     (case Decode b zeroItem of
        Inl err \<Rightarrow> (respondWithError StatusBadRequest ''Invalid request payload'', items)
      | Inr updatedItem \<Rightarrow>
          (case updateItem_loop items 0 ident updatedItem of
             Some res \<Rightarrow> res
           | None \<Rightarrow> (respondWithError StatusNotFound ''Item not found'', items)))"

text \<open>
  \<open>deleteItem\<close>: \<open>append(items[:index], items[index+1:]...)\<close> is the slice without the
  element at \<open>index\<close>.
\<close>

function deleteItem_loop :: "Item list \<Rightarrow> nat \<Rightarrow> string \<Rightarrow> (response \<times> Item list) option" where
  "deleteItem_loop items index ident =
     (if index < length items then
        (let item = items ! index in
         if ID item = ident then
           (let items = take index items @ drop (index + 1) items
            in Some (respondWithJSON StatusOK
                       (PMap [(''result'', ''success''), (''id_deleted'', ident)]), items))
         else deleteItem_loop items (Suc index) ident)
      else None)"
  by pat_completeness auto
termination
  by (relation "measure (\<lambda>(items, index, ident). length items - index)") auto

definition deleteItem :: "Item list \<Rightarrow> string \<Rightarrow> response \<times> Item list" where
  "deleteItem items ident =
     (case deleteItem_loop items 0 ident of
        Some res \<Rightarrow> res
      | None \<Rightarrow> (respondWithError StatusNotFound ''Item not found'', items))"

text \<open>The five items that \<open>main\<close> appends before it starts serving.\<close>

definition main_items :: "Item list" where
  "main_items =
     [\<lparr>ID = ''1'', Name = ''Default Item 1'', Description = ''This is the first item''\<rparr>,
      \<lparr>ID = ''2'', Name = ''Default Item 2'', Description = ''This is the second item''\<rparr>,
      \<lparr>ID = ''3'', Name = ''Default Item 3'', Description = ''This is the third item''\<rparr>,
      \<lparr>ID = ''4'', Name = ''Default Item 4'', Description = ''This is the fourth item''\<rparr>,
      \<lparr>ID = ''5'', Name = ''Default Item 5'', Description = ''This is the fifth item''\<rparr>]"

subsection \<open>Reading a decimal string\<close>

text \<open>
  The number that a string of decimal digits denotes, most significant digit first. It
  is not part of the program: it states what the id produced by \<open>Itoa\<close> stands for.
\<close>

definition digitVal :: "char \<Rightarrow> nat" where
  "digitVal c = of_char c - 48"

definition decimalValue :: "string \<Rightarrow> nat" where
  "decimalValue s = foldl (\<lambda>a c. 10 * a + digitVal c) 0 s"

section \<open>Properties\<close>

subsection \<open>The three loops\<close>

text \<open>
  The defining equations of the loops are unfolded by hand, one iteration at a time.
\<close>

declare getItem_loop.simps [simp del]
declare updateItem_loop.simps [simp del]
declare deleteItem_loop.simps [simp del]
declare formatBits.simps [simp del]

text \<open>
  Each loop started at \<open>index\<close> stops at the first position \<open>k\<close> from there on whose
  item has the id, and falls through when there is none.
\<close>

lemma getItem_loop_found:
  "index \<le> k \<Longrightarrow> k < length items \<Longrightarrow> ID (items ! k) = ident \<Longrightarrow>
   (\<forall>j. index \<le> j \<and> j < k \<longrightarrow> ID (items ! j) \<noteq> ident) \<Longrightarrow>
   getItem_loop items index ident = Some (respondWithJSON StatusOK (PItem (items ! k)))"
proof (induction items index ident rule: getItem_loop.induct)
  case (1 items index ident)
  show ?case
  proof (cases "index = k")
    case True
    with 1 show ?thesis by (simp add: getItem_loop.simps[of items k])
  next
    case False
    with 1 have lt: "index < k" and ne: "ID (items ! index) \<noteq> ident" by auto
    with 1 have "getItem_loop items (Suc index) ident = Some (respondWithJSON StatusOK (PItem (items ! k)))"
      by auto
    with lt ne 1 show ?thesis by (simp add: getItem_loop.simps[of items index])
  qed
qed

lemma getItem_loop_none:
  "(\<forall>j. index \<le> j \<and> j < length items \<longrightarrow> ID (items ! j) \<noteq> ident) \<Longrightarrow>
   getItem_loop items index ident = None"
proof (induction items index ident rule: getItem_loop.induct)
  case (1 items index ident)
  show ?case
  proof (cases "index < length items")
    case True
    with 1 have ne: "ID (items ! index) \<noteq> ident" by auto
    with True 1 have "getItem_loop items (Suc index) ident = None" by auto
    with True ne show ?thesis by (simp add: getItem_loop.simps[of items index])
  next
    case False
    then show ?thesis by (simp add: getItem_loop.simps[of items index])
  qed
qed

lemma updateItem_loop_found:
  "index \<le> k \<Longrightarrow> k < length items \<Longrightarrow> ID (items ! k) = ident \<Longrightarrow>
   (\<forall>j. index \<le> j \<and> j < k \<longrightarrow> ID (items ! j) \<noteq> ident) \<Longrightarrow>
   updateItem_loop items index ident u =
     Some (respondWithJSON StatusOK (PItem ((items ! k)\<lparr>Name := Name u, Description := Description u\<rparr>)),
           items[k := (items ! k)\<lparr>Name := Name u, Description := Description u\<rparr>])"
proof (induction items index ident u rule: updateItem_loop.induct)
  case (1 items index ident u)
  show ?case
  proof (cases "index = k")
    case True
    with 1 show ?thesis by (simp add: updateItem_loop.simps[of items k])
  next
    case False
    with 1 have lt: "index < k" and ne: "ID (items ! index) \<noteq> ident" by auto
    with 1 have "updateItem_loop items (Suc index) ident u =
     Some (respondWithJSON StatusOK (PItem ((items ! k)\<lparr>Name := Name u, Description := Description u\<rparr>)),
           items[k := (items ! k)\<lparr>Name := Name u, Description := Description u\<rparr>])"
      by auto
    with lt ne 1 show ?thesis by (simp add: updateItem_loop.simps[of items index])
  qed
qed

lemma updateItem_loop_none:
  "(\<forall>j. index \<le> j \<and> j < length items \<longrightarrow> ID (items ! j) \<noteq> ident) \<Longrightarrow>
   updateItem_loop items index ident u = None"
proof (induction items index ident u rule: updateItem_loop.induct)
  case (1 items index ident u)
  show ?case
  proof (cases "index < length items")
    case True
    with 1 have ne: "ID (items ! index) \<noteq> ident" by auto
    with True 1 have "updateItem_loop items (Suc index) ident u = None" by auto
    with True ne show ?thesis by (simp add: updateItem_loop.simps[of items index])
  next
    case False
    then show ?thesis by (simp add: updateItem_loop.simps[of items index])
  qed
qed

lemma deleteItem_loop_found:
  "index \<le> k \<Longrightarrow> k < length items \<Longrightarrow> ID (items ! k) = ident \<Longrightarrow>
   (\<forall>j. index \<le> j \<and> j < k \<longrightarrow> ID (items ! j) \<noteq> ident) \<Longrightarrow>
   deleteItem_loop items index ident =
     Some (respondWithJSON StatusOK (PMap [(''result'', ''success''), (''id_deleted'', ident)]),
           take k items @ drop (Suc k) items)"
proof (induction items index ident rule: deleteItem_loop.induct)
  case (1 items index ident)
  show ?case
  proof (cases "index = k")
    case True
    with 1 show ?thesis by (simp add: deleteItem_loop.simps[of items k])
  next
    case False
    with 1 have lt: "index < k" and ne: "ID (items ! index) \<noteq> ident" by auto
    with 1 have "deleteItem_loop items (Suc index) ident =
     Some (respondWithJSON StatusOK (PMap [(''result'', ''success''), (''id_deleted'', ident)]),
           take k items @ drop (Suc k) items)"
      by auto
    with lt ne 1 show ?thesis by (simp add: deleteItem_loop.simps[of items index])
  qed
qed

lemma deleteItem_loop_none:
  "(\<forall>j. index \<le> j \<and> j < length items \<longrightarrow> ID (items ! j) \<noteq> ident) \<Longrightarrow>
   deleteItem_loop items index ident = None"
proof (induction items index ident rule: deleteItem_loop.induct)
  case (1 items index ident)
  show ?case
  proof (cases "index < length items")
    case True
    with 1 have ne: "ID (items ! index) \<noteq> ident" by auto
    with True 1 have "deleteItem_loop items (Suc index) ident = None" by auto
    with True ne show ?thesis by (simp add: deleteItem_loop.simps[of items index])
  next
    case False
    then show ?thesis by (simp add: deleteItem_loop.simps[of items index])
  qed
qed

lemma first_match:
  assumes "ident \<in> ID ` set items"
  shows "\<exists>k<length items. ID (items ! k) = ident \<and> (\<forall>j<k. ID (items ! j) \<noteq> ident)"
proof -
  let ?P = "\<lambda>k. k < length items \<and> ID (items ! k) = ident"
  from assms obtain n where n: "?P n" by (auto simp: in_set_conv_nth)
  define k where "k = (LEAST k. ?P k)"
  from n have Pk: "?P k" unfolding k_def by (rule LeastI)
  have "\<forall>j<k. ID (items ! j) \<noteq> ident"
  proof (intro allI impI)
    fix j assume j: "j < k"
    show "ID (items ! j) \<noteq> ident"
    proof
      assume "ID (items ! j) = ident"
      with j Pk have "?P j" by simp
      then have "k \<le> j" unfolding k_def by (rule Least_le)
      with j show False by simp
    qed
  qed
  with Pk show ?thesis by blast
qed

lemma absent_nth: "ident \<notin> ID ` set items \<Longrightarrow> j < length items \<Longrightarrow> ID (items ! j) \<noteq> ident"
  by (metis imageI nth_mem)

subsection \<open>Decimal digits\<close>

lemma digit_in_digits: "d < 10 \<Longrightarrow> digit d \<in> set ''0123456789''"
proof -
  assume "d < 10"
  then have "d \<in> {0,1,2,3,4,5,6,7,8,9::nat}" by auto
  then show ?thesis by (auto simp: digit_def)
qed

lemma digit_cases: "d < 10 \<Longrightarrow> d \<in> {0,1,2,3,4,5,6,7,8,9::nat}"
  by auto

lemma digitVal_digit: "d < 10 \<Longrightarrow> digitVal (digit d) = d"
  by (drule digit_cases) (auto simp: digitVal_def digit_def)

lemma digit_zero_iff: "d < 10 \<Longrightarrow> digit d = CHR ''0'' \<longleftrightarrow> d = 0"
proof -
  assume d: "d < 10"
  have z: "digit 0 = CHR ''0''" by (simp add: digit_def)
  show ?thesis
  proof
    assume "digit d = CHR ''0''"
    then have "digitVal (digit d) = digitVal (digit 0)" using z by simp
    with d show "d = 0" by (simp add: digitVal_digit)
  next
    assume "d = 0" with z show "digit d = CHR ''0''" by simp
  qed
qed

lemma formatBits_nonempty: "formatBits n \<noteq> []"
  by (subst formatBits.simps) simp

lemma formatBits_digits: "c \<in> set (formatBits n) \<Longrightarrow> c \<in> set ''0123456789''"
proof (induction n rule: formatBits.induct)
  case (1 n)
  show ?case
  proof (cases "n < 10")
    case True
    with 1(2) have "c = digit n" by (simp add: formatBits.simps[of n])
    with True show ?thesis using digit_in_digits by blast
  next
    case False
    with 1(2) have "c \<in> set (formatBits (n div 10)) \<or> c = digit (n mod 10)"
      by (auto simp add: formatBits.simps[of n])
    then show ?thesis
    proof
      assume "c \<in> set (formatBits (n div 10))"
      with False 1(1) show ?thesis by blast
    next
      assume "c = digit (n mod 10)"
      moreover have "n mod 10 < 10" by simp
      ultimately show ?thesis using digit_in_digits by blast
    qed
  qed
qed

lemma formatBits_length: "0 < k \<Longrightarrow> n < 10 ^ k \<Longrightarrow> length (formatBits n) \<le> k"
proof (induction n arbitrary: k rule: formatBits.induct)
  case (1 n)
  show ?case
  proof (cases "n < 10")
    case True
    with 1(2) show ?thesis by (simp add: formatBits.simps[of n])
  next
    case False
    from 1(2) obtain k' where k: "k = Suc k'" by (cases k) auto
    with False 1(3) have k'pos: "0 < k'" by (cases k') auto
    from 1(3) k have "n div 10 < 10 ^ k'" by (simp add: less_mult_imp_div_less mult.commute)
    with 1(1)[OF False k'pos] have "length (formatBits (n div 10)) \<le> k'" by simp
    with False k show ?thesis by (simp add: formatBits.simps[of n])
  qed
qed

lemma formatBits_hd: "0 < n \<Longrightarrow> hd (formatBits n) \<noteq> CHR ''0''"
proof (induction n rule: formatBits.induct)
  case (1 n)
  show ?case
  proof (cases "n < 10")
    case True
    with 1(2) show ?thesis by (simp add: formatBits.simps[of n] digit_zero_iff)
  next
    case False
    then have "0 < n div 10" by simp
    with 1(1)[OF False] have "hd (formatBits (n div 10)) \<noteq> CHR ''0''" by simp
    with False show ?thesis by (simp add: formatBits.simps[of n] formatBits_nonempty)
  qed
qed

lemma formatBits_value: "decimalValue (formatBits n) = n"
proof (induction n rule: formatBits.induct)
  case (1 n)
  show ?case
  proof (cases "n < 10")
    case True
    then show ?thesis by (simp add: formatBits.simps[of n] decimalValue_def digitVal_digit)
  next
    case False
    with 1 have "decimalValue (formatBits (n div 10)) = n div 10" by simp
    with False show ?thesis
      by (simp add: formatBits.simps[of n] decimalValue_def digitVal_digit)
  qed
qed

lemma formatBits_0: "formatBits 0 = ''0''"
  by (simp add: formatBits.simps[of 0] digit_def)

subsection \<open>The handlers on an id that is present or absent\<close>

lemma getItem_present:
  "k < length items \<Longrightarrow> ID (items ! k) = ident \<Longrightarrow> (\<forall>j<k. ID (items ! j) \<noteq> ident) \<Longrightarrow>
   getItem items ident = (respondWithJSON StatusOK (PItem (items ! k)), items)"
  by (simp add: getItem_def getItem_loop_found[of 0 k])

lemma getItem_absent:
  "ident \<notin> ID ` set items \<Longrightarrow>
   getItem items ident = (respondWithError StatusNotFound ''Item not found'', items)"
  by (simp add: getItem_def getItem_loop_none absent_nth)

lemma updateItem_present:
  "Decode b zeroItem = Inr u \<Longrightarrow>
   k < length items \<Longrightarrow> ID (items ! k) = ident \<Longrightarrow> (\<forall>j<k. ID (items ! j) \<noteq> ident) \<Longrightarrow>
   updateItem items ident b =
     (respondWithJSON StatusOK (PItem ((items ! k)\<lparr>Name := Name u, Description := Description u\<rparr>)),
      items[k := (items ! k)\<lparr>Name := Name u, Description := Description u\<rparr>])"
  by (simp add: updateItem_def updateItem_loop_found[of 0 k])

lemma updateItem_absent:
  "Decode b zeroItem = Inr u \<Longrightarrow> ident \<notin> ID ` set items \<Longrightarrow>
   updateItem items ident b = (respondWithError StatusNotFound ''Item not found'', items)"
  by (simp add: updateItem_def updateItem_loop_none absent_nth)

lemma updateItem_undecodable:
  "Decode b zeroItem = Inl e \<Longrightarrow>
   updateItem items ident b = (respondWithError StatusBadRequest ''Invalid request payload'', items)"
  by (simp add: updateItem_def)

lemma deleteItem_present:
  "k < length items \<Longrightarrow> ID (items ! k) = ident \<Longrightarrow> (\<forall>j<k. ID (items ! j) \<noteq> ident) \<Longrightarrow>
   deleteItem items ident =
     (respondWithJSON StatusOK (PMap [(''result'', ''success''), (''id_deleted'', ident)]),
      take k items @ drop (Suc k) items)"
  by (simp add: deleteItem_def deleteItem_loop_found[of 0 k])

lemma deleteItem_absent:
  "ident \<notin> ID ` set items \<Longrightarrow>
   deleteItem items ident = (respondWithError StatusNotFound ''Item not found'', items)"
  by (simp add: deleteItem_def deleteItem_loop_none absent_nth)

lemma createItem_decodable:
  "Decode b zeroItem = Inr item \<Longrightarrow>
   createItem items b r =
     (respondWithJSON StatusCreated (PItem (item\<lparr>ID := Itoa r\<rparr>)), items @ [item\<lparr>ID := Itoa r\<rparr>])"
  by (simp add: createItem_def Let_def)

lemma createItem_undecodable:
  "Decode b zeroItem = Inl e \<Longrightarrow>
   createItem items b r = (respondWithError StatusBadRequest ''Invalid request payload'', items)"
  by (simp add: createItem_def)

lemmas respond_defs =
  respondWithJSON_def respondWithError_def StatusOK_def StatusCreated_def
  StatusBadRequest_def StatusNotFound_def

lemmas itoa_defs = Itoa_def formatBits.simps digit_def

lemmas decode_defs =
  Decode_def unmarshal_def lookupField_def fieldNames_def setField_def saveError_def zeroItem_def

lemma first_match_append:
  "\<forall>x\<in>set pre. ID x \<noteq> ident \<Longrightarrow> j < length pre \<Longrightarrow> ID ((pre @ rest) ! j) \<noteq> ident"
  by (simp add: nth_append)

subsection \<open>Reading one item\<close>

text \<open>
  Claim C7. When the collection holds an item with the id asked for, \<open>getItem\<close> answers
  200 with the first item in collection order that has this id (every item before it
  has another id), and the collection after the call is the collection before it.
\<close>

theorem getItem_found:
  assumes "ident \<in> ID ` set items"
  shows "\<exists>k<length items. ID (items ! k) = ident \<and> (\<forall>j<k. ID (items ! j) \<noteq> ident) \<and>
           getItem items ident = (\<lparr>code = 200, body = PItem (items ! k)\<rparr>, items)"
proof -
  from first_match[OF assms] obtain k where
    k: "k < length items" "ID (items ! k) = ident" "\<forall>j<k. ID (items ! j) \<noteq> ident"
    by blast
  from getItem_present[OF k]
  have "getItem items ident = (\<lparr>code = 200, body = PItem (items ! k)\<rparr>, items)"
    by (simp add: respond_defs)
  with k show ?thesis by blast
qed

theorem getItem_found_witness:
  "''2'' \<in> ID ` set main_items \<and>
   (\<exists>k<length main_items. ID (main_items ! k) = ''2'' \<and> (\<forall>j<k. ID (main_items ! j) \<noteq> ''2'') \<and>
      getItem main_items ''2'' = (\<lparr>code = 200, body = PItem (main_items ! k)\<rparr>, main_items))"
proof -
  have h: "''2'' \<in> ID ` set main_items" by (simp add: main_items_def)
  from getItem_found[OF h] h show ?thesis by blast
qed

subsection \<open>An id that is not in the collection\<close>

text \<open>
  Claim C6. When no item of the collection has the id, \<open>getItem\<close>, \<open>updateItem\<close> with a
  body that decodes, and \<open>deleteItem\<close> each answer 404 with the body
  \<open>{"error": "Item not found"}\<close>, and each leaves the collection as it was.
\<close>

theorem absent_id_not_found:
  assumes "ident \<notin> ID ` set items" and "Decode b zeroItem = Inr patch"
  shows "getItem items ident =
           (\<lparr>code = 404, body = PMap [(''error'', ''Item not found'')]\<rparr>, items) \<and>
         updateItem items ident b =
           (\<lparr>code = 404, body = PMap [(''error'', ''Item not found'')]\<rparr>, items) \<and>
         deleteItem items ident =
           (\<lparr>code = 404, body = PMap [(''error'', ''Item not found'')]\<rparr>, items)"
  using getItem_absent[OF assms(1)] updateItem_absent[OF assms(2) assms(1)]
    deleteItem_absent[OF assms(1)]
  by (simp add: respond_defs)

theorem absent_id_not_found_witness:
  "''999'' \<notin> ID ` set main_items \<and>
   Decode (Value (JObject [(''name'', JString ''Updated Name''),
                           (''description'', JString ''Updated Description'')])) zeroItem =
     Inr \<lparr>ID = [], Name = ''Updated Name'', Description = ''Updated Description''\<rparr> \<and>
   getItem main_items ''999'' =
     (\<lparr>code = 404, body = PMap [(''error'', ''Item not found'')]\<rparr>, main_items) \<and>
   updateItem main_items ''999''
       (Value (JObject [(''name'', JString ''Updated Name''),
                        (''description'', JString ''Updated Description'')])) =
     (\<lparr>code = 404, body = PMap [(''error'', ''Item not found'')]\<rparr>, main_items) \<and>
   deleteItem main_items ''999'' =
     (\<lparr>code = 404, body = PMap [(''error'', ''Item not found'')]\<rparr>, main_items)"
proof -
  have h1: "''999'' \<notin> ID ` set main_items" by (simp add: main_items_def)
  have h2: "Decode (Value (JObject [(''name'', JString ''Updated Name''),
                           (''description'', JString ''Updated Description'')])) zeroItem =
     Inr \<lparr>ID = [], Name = ''Updated Name'', Description = ''Updated Description''\<rparr>"
    by (simp add: decode_defs)
  from absent_id_not_found[OF h1 h2] h1 h2 show ?thesis by blast
qed

subsection \<open>A body that does not decode\<close>

text \<open>
  Claim C3. When decoding the request body into an \<open>Item\<close> returns an error,
  \<open>createItem\<close> and \<open>updateItem\<close> answer 400 with the body
  \<open>{"error": "Invalid request payload"}\<close> and the collection after the call is the same
  list as before it.
\<close>

theorem undecodable_body_bad_request:
  assumes "Decode b zeroItem = Inl e"
  shows "createItem items b r =
           (\<lparr>code = 400, body = PMap [(''error'', ''Invalid request payload'')]\<rparr>, items) \<and>
         updateItem items ident b =
           (\<lparr>code = 400, body = PMap [(''error'', ''Invalid request payload'')]\<rparr>, items)"
  using createItem_undecodable[OF assms] updateItem_undecodable[OF assms]
  by (simp add: respond_defs)

theorem undecodable_body_bad_request_witness:
  "Decode Malformed zeroItem = Inl SyntaxError \<and>
   createItem main_items Malformed 7 =
     (\<lparr>code = 400, body = PMap [(''error'', ''Invalid request payload'')]\<rparr>, main_items) \<and>
   updateItem main_items ''1'' Malformed =
     (\<lparr>code = 400, body = PMap [(''error'', ''Invalid request payload'')]\<rparr>, main_items)"
proof -
  have h: "Decode Malformed zeroItem = Inl SyntaxError" by (simp add: Decode_def)
  from undecodable_body_bad_request[OF h] h show ?thesis by blast
qed


subsection \<open>Updating an item\<close>

text \<open>
  Claim C4. When the collection holds an item with the id and the body decodes to a
  patch, \<open>updateItem\<close> answers 200 with the updated item. The updated collection has the
  same length; at the position \<open>k\<close> of the first item with the id it holds the old id
  with the name and the description of the patch, whatever id the patch carries; at
  every other position it holds the item it held before.
\<close>

theorem updateItem_found:
  assumes "ident \<in> ID ` set items" and "Decode b zeroItem = Inr patch"
  shows "\<exists>k<length items. ID (items ! k) = ident \<and> (\<forall>j<k. ID (items ! j) \<noteq> ident) \<and>
           (\<exists>items'. updateItem items ident b = (\<lparr>code = 200, body = PItem (items' ! k)\<rparr>, items') \<and>
              length items' = length items \<and>
              items' ! k = \<lparr>ID = ID (items ! k), Name = Name patch, Description = Description patch\<rparr> \<and>
              (\<forall>j<length items. j \<noteq> k \<longrightarrow> items' ! j = items ! j))"
proof -
  from first_match[OF assms(1)] obtain k where
    k: "k < length items" "ID (items ! k) = ident" "\<forall>j<k. ID (items ! j) \<noteq> ident"
    by blast
  let ?new = "(items ! k)\<lparr>Name := Name patch, Description := Description patch\<rparr>"
  let ?items' = "items[k := ?new]"
  have new: "?new = \<lparr>ID = ID (items ! k), Name = Name patch, Description = Description patch\<rparr>"
    by simp
  from k(1) have at_k: "?items' ! k = ?new" by simp
  from updateItem_present[OF assms(2) k]
  have "updateItem items ident b = (\<lparr>code = 200, body = PItem (?items' ! k)\<rparr>, ?items')"
    using at_k by (simp add: respond_defs)
  moreover have "length ?items' = length items" by simp
  moreover have "?items' ! k = \<lparr>ID = ID (items ! k), Name = Name patch, Description = Description patch\<rparr>"
    using k(1) by simp
  moreover have "\<forall>j<length items. j \<noteq> k \<longrightarrow> ?items' ! j = items ! j" by simp
  ultimately show ?thesis using k by blast
qed

theorem updateItem_found_witness:
  "''2'' \<in> ID ` set main_items \<and>
   Decode (Value (JObject [(''id'', JString ''99''), (''name'', JString ''Updated Name''),
                           (''description'', JString ''Updated Description'')])) zeroItem =
     Inr \<lparr>ID = ''99'', Name = ''Updated Name'', Description = ''Updated Description''\<rparr> \<and>
   (\<exists>k<length main_items. ID (main_items ! k) = ''2'' \<and> (\<forall>j<k. ID (main_items ! j) \<noteq> ''2'') \<and>
      (\<exists>items'. updateItem main_items ''2''
                    (Value (JObject [(''id'', JString ''99''), (''name'', JString ''Updated Name''),
                                     (''description'', JString ''Updated Description'')])) =
                  (\<lparr>code = 200, body = PItem (items' ! k)\<rparr>, items') \<and>
         length items' = length main_items \<and>
         items' ! k = \<lparr>ID = ID (main_items ! k),
                        Name = Name \<lparr>ID = ''99'', Name = ''Updated Name'', Description = ''Updated Description''\<rparr>,
                        Description = Description \<lparr>ID = ''99'', Name = ''Updated Name'', Description = ''Updated Description''\<rparr>\<rparr> \<and>
         (\<forall>j<length main_items. j \<noteq> k \<longrightarrow> items' ! j = main_items ! j)))"
proof -
  have h1: "''2'' \<in> ID ` set main_items" by (simp add: main_items_def)
  have h2: "Decode (Value (JObject [(''id'', JString ''99''), (''name'', JString ''Updated Name''),
                           (''description'', JString ''Updated Description'')])) zeroItem =
     Inr \<lparr>ID = ''99'', Name = ''Updated Name'', Description = ''Updated Description''\<rparr>"
    by (simp add: decode_defs)
  from updateItem_found[OF h1 h2] h1 h2 show ?thesis by blast
qed

subsection \<open>Deleting an item\<close>

text \<open>
  Claim C5. When the collection holds an item with the id, \<open>deleteItem\<close> answers 200 with
  the body \<open>{"result": "success", "id_deleted": id}\<close>; the collection after the call is
  the collection before it without the element at the position \<open>k\<close> of the first item
  with the id, the other items in their order, and it is shorter by exactly one.
\<close>

theorem deleteItem_found:
  assumes "ident \<in> ID ` set items"
  shows "\<exists>k<length items. ID (items ! k) = ident \<and> (\<forall>j<k. ID (items ! j) \<noteq> ident) \<and>
           deleteItem items ident =
             (\<lparr>code = 200, body = PMap [(''result'', ''success''), (''id_deleted'', ident)]\<rparr>,
              take k items @ drop (Suc k) items) \<and>
           Suc (length (snd (deleteItem items ident))) = length items"
proof -
  from first_match[OF assms] obtain k where
    k: "k < length items" "ID (items ! k) = ident" "\<forall>j<k. ID (items ! j) \<noteq> ident"
    by blast
  from deleteItem_present[OF k]
  have d: "deleteItem items ident =
             (\<lparr>code = 200, body = PMap [(''result'', ''success''), (''id_deleted'', ident)]\<rparr>,
              take k items @ drop (Suc k) items)"
    by (simp add: respond_defs)
  from k(1) have "Suc (length (take k items @ drop (Suc k) items)) = length items" by simp
  with d have "Suc (length (snd (deleteItem items ident))) = length items" by simp
  with d k show ?thesis by blast
qed

theorem deleteItem_found_witness:
  "''2'' \<in> ID ` set main_items \<and>
   (\<exists>k<length main_items. ID (main_items ! k) = ''2'' \<and> (\<forall>j<k. ID (main_items ! j) \<noteq> ''2'') \<and>
      deleteItem main_items ''2'' =
        (\<lparr>code = 200, body = PMap [(''result'', ''success''), (''id_deleted'', ''2'')]\<rparr>,
         take k main_items @ drop (Suc k) main_items) \<and>
      Suc (length (snd (deleteItem main_items ''2''))) = length main_items)"
proof -
  have h: "''2'' \<in> ID ` set main_items" by (simp add: main_items_def)
  from deleteItem_found[OF h] h show ?thesis by blast
qed

subsection \<open>Several items with the same id\<close>

lemma prefix_nth: "ident \<notin> ID ` set pre \<Longrightarrow> \<forall>j<length pre. ID ((pre @ rest) ! j) \<noteq> ident"
  by (simp add: nth_append absent_nth)

text \<open>
  Claim C9. When two items of the collection share the id, \<open>a\<close> being the earliest item
  with it (no item of \<open>pre\<close> has it) and \<open>d\<close> any later one, \<open>getItem\<close> returns \<open>a\<close>,
  \<open>updateItem\<close> rewrites only \<open>a\<close>, and \<open>deleteItem\<close> removes only \<open>a\<close>: \<open>d\<close> and every
  other item stay where they are, in their order.
\<close>

theorem duplicates_first_wins:
  assumes "ident \<notin> ID ` set pre" and "ID a = ident" and "ID d = ident"
    and "Decode b zeroItem = Inr patch"
  shows "getItem (pre @ a # mid @ d # post) ident =
           (\<lparr>code = 200, body = PItem a\<rparr>, pre @ a # mid @ d # post) \<and>
         updateItem (pre @ a # mid @ d # post) ident b =
           (\<lparr>code = 200, body = PItem (a\<lparr>Name := Name patch, Description := Description patch\<rparr>)\<rparr>,
            pre @ a\<lparr>Name := Name patch, Description := Description patch\<rparr> # mid @ d # post) \<and>
         deleteItem (pre @ a # mid @ d # post) ident =
           (\<lparr>code = 200, body = PMap [(''result'', ''success''), (''id_deleted'', ident)]\<rparr>,
            pre @ mid @ d # post)"
proof -
  let ?items = "pre @ a # mid @ d # post"
  let ?k = "length pre"
  have k: "?k < length ?items" "ID (?items ! ?k) = ident" "\<forall>j<?k. ID (?items ! j) \<noteq> ident"
    using assms(2) prefix_nth[OF assms(1)] by simp_all
  have "getItem ?items ident = (\<lparr>code = 200, body = PItem a\<rparr>, ?items)"
    using getItem_present[OF k] by (simp add: respond_defs)
  moreover have "updateItem ?items ident b =
           (\<lparr>code = 200, body = PItem (a\<lparr>Name := Name patch, Description := Description patch\<rparr>)\<rparr>,
            pre @ a\<lparr>Name := Name patch, Description := Description patch\<rparr> # mid @ d # post)"
    using updateItem_present[OF assms(4) k] by (simp add: respond_defs)
  moreover have "deleteItem ?items ident =
           (\<lparr>code = 200, body = PMap [(''result'', ''success''), (''id_deleted'', ident)]\<rparr>,
            pre @ mid @ d # post)"
    using deleteItem_present[OF k] by (simp add: respond_defs)
  ultimately show ?thesis by blast
qed


theorem duplicates_first_wins_witness:
  "''7'' \<notin> ID ` set [\<lparr>ID = ''1'', Name = ''one'', Description = ''first''\<rparr>] \<and>
   ID \<lparr>ID = ''7'', Name = ''early'', Description = ''a''\<rparr> = ''7'' \<and>
   ID \<lparr>ID = ''7'', Name = ''late'', Description = ''d''\<rparr> = ''7'' \<and>
   Decode (Value (JObject [(''name'', JString ''new'')])) zeroItem =
     Inr \<lparr>ID = [], Name = ''new'', Description = []\<rparr> \<and>
   getItem [\<lparr>ID = ''1'', Name = ''one'', Description = ''first''\<rparr>,
            \<lparr>ID = ''7'', Name = ''early'', Description = ''a''\<rparr>,
            \<lparr>ID = ''2'', Name = ''two'', Description = ''second''\<rparr>,
            \<lparr>ID = ''7'', Name = ''late'', Description = ''d''\<rparr>] ''7'' =
     (\<lparr>code = 200, body = PItem \<lparr>ID = ''7'', Name = ''early'', Description = ''a''\<rparr>\<rparr>,
      [\<lparr>ID = ''1'', Name = ''one'', Description = ''first''\<rparr>,
       \<lparr>ID = ''7'', Name = ''early'', Description = ''a''\<rparr>,
       \<lparr>ID = ''2'', Name = ''two'', Description = ''second''\<rparr>,
       \<lparr>ID = ''7'', Name = ''late'', Description = ''d''\<rparr>]) \<and>
   updateItem [\<lparr>ID = ''1'', Name = ''one'', Description = ''first''\<rparr>,
               \<lparr>ID = ''7'', Name = ''early'', Description = ''a''\<rparr>,
               \<lparr>ID = ''2'', Name = ''two'', Description = ''second''\<rparr>,
               \<lparr>ID = ''7'', Name = ''late'', Description = ''d''\<rparr>] ''7''
              (Value (JObject [(''name'', JString ''new'')])) =
     (\<lparr>code = 200, body = PItem \<lparr>ID = ''7'', Name = ''new'', Description = []\<rparr>\<rparr>,
      [\<lparr>ID = ''1'', Name = ''one'', Description = ''first''\<rparr>,
       \<lparr>ID = ''7'', Name = ''new'', Description = []\<rparr>,
       \<lparr>ID = ''2'', Name = ''two'', Description = ''second''\<rparr>,
       \<lparr>ID = ''7'', Name = ''late'', Description = ''d''\<rparr>]) \<and>
   deleteItem [\<lparr>ID = ''1'', Name = ''one'', Description = ''first''\<rparr>,
               \<lparr>ID = ''7'', Name = ''early'', Description = ''a''\<rparr>,
               \<lparr>ID = ''2'', Name = ''two'', Description = ''second''\<rparr>,
               \<lparr>ID = ''7'', Name = ''late'', Description = ''d''\<rparr>] ''7'' =
     (\<lparr>code = 200, body = PMap [(''result'', ''success''), (''id_deleted'', ''7'')]\<rparr>,
      [\<lparr>ID = ''1'', Name = ''one'', Description = ''first''\<rparr>,
       \<lparr>ID = ''2'', Name = ''two'', Description = ''second''\<rparr>,
       \<lparr>ID = ''7'', Name = ''late'', Description = ''d''\<rparr>])"
proof -
  have h1: "''7'' \<notin> ID ` set [\<lparr>ID = ''1'', Name = ''one'', Description = ''first''\<rparr>]"
    by simp
  have h2: "ID \<lparr>ID = ''7'', Name = ''early'', Description = ''a''\<rparr> = ''7''" by simp
  have h3: "ID \<lparr>ID = ''7'', Name = ''late'', Description = ''d''\<rparr> = ''7''" by simp
  have h4: "Decode (Value (JObject [(''name'', JString ''new'')])) zeroItem =
     Inr \<lparr>ID = [], Name = ''new'', Description = []\<rparr>"
    by (simp add: decode_defs)
  from duplicates_first_wins[OF h1 h2 h3 h4,
      of "[\<lparr>ID = ''2'', Name = ''two'', Description = ''second''\<rparr>]" "[]"]
  show ?thesis using h4 by simp
qed

subsection \<open>The body null\<close>

lemma Decode_null: "Decode (Value JNull) zeroItem = Inr zeroItem"
  by (simp add: Decode_def unmarshal_def)

text \<open>
  Claim C10. A body that is the JSON value \<open>null\<close> decodes without error and leaves the
  zero \<open>Item\<close> as it is. So \<open>createItem\<close> answers 201 and appends an item with empty name
  and description and the id generated in this call: the id is never the empty string
  of the zero \<open>Item\<close>, and for a number that \<open>rand.Intn\<close> can return (none is negative)
  it is the decimal string that reads back as this number. And \<open>updateItem\<close> on an id of
  the collection answers 200 and sets the name and the description of the first item
  with this id to the empty string. Neither answers 400.
\<close>

theorem null_body_is_decodable:
  "createItem items (Value JNull) r =
     (\<lparr>code = 201, body = PItem \<lparr>ID = Itoa r, Name = [], Description = []\<rparr>\<rparr>,
      items @ [\<lparr>ID = Itoa r, Name = [], Description = []\<rparr>]) \<and>
   ID (last (snd (createItem items (Value JNull) r))) \<noteq> [] \<and>
   (0 \<le> r \<longrightarrow> int (decimalValue (ID (last (snd (createItem items (Value JNull) r))))) = r) \<and>
   (ident \<in> ID ` set items \<longrightarrow>
      (\<exists>k<length items. ID (items ! k) = ident \<and> (\<forall>j<k. ID (items ! j) \<noteq> ident) \<and>
         updateItem items ident (Value JNull) =
           (\<lparr>code = 200, body = PItem \<lparr>ID = ident, Name = [], Description = []\<rparr>\<rparr>,
            items[k := \<lparr>ID = ident, Name = [], Description = []\<rparr>])))"
proof -
  have c: "createItem items (Value JNull) r =
     (\<lparr>code = 201, body = PItem \<lparr>ID = Itoa r, Name = [], Description = []\<rparr>\<rparr>,
      items @ [\<lparr>ID = Itoa r, Name = [], Description = []\<rparr>])"
    using createItem_decodable[OF Decode_null] by (simp add: respond_defs zeroItem_def)
  then have stored: "ID (last (snd (createItem items (Value JNull) r))) = Itoa r"
    by simp
  have nonempty: "ID (last (snd (createItem items (Value JNull) r))) \<noteq> []"
    by (simp only: stored) (simp add: Itoa_def formatBits_nonempty)
  have reads_back:
    "0 \<le> r \<longrightarrow> int (decimalValue (ID (last (snd (createItem items (Value JNull) r))))) = r"
    by (simp only: stored) (simp add: Itoa_def formatBits_value)
  have upd: "ident \<in> ID ` set items \<longrightarrow>
      (\<exists>k<length items. ID (items ! k) = ident \<and> (\<forall>j<k. ID (items ! j) \<noteq> ident) \<and>
         updateItem items ident (Value JNull) =
           (\<lparr>code = 200, body = PItem \<lparr>ID = ident, Name = [], Description = []\<rparr>\<rparr>,
            items[k := \<lparr>ID = ident, Name = [], Description = []\<rparr>]))"
  proof
    assume "ident \<in> ID ` set items"
    from first_match[OF this] obtain k where
      k: "k < length items" "ID (items ! k) = ident" "\<forall>j<k. ID (items ! j) \<noteq> ident"
      by blast
    have "(items ! k)\<lparr>Name := Name zeroItem, Description := Description zeroItem\<rparr> =
          \<lparr>ID = ident, Name = [], Description = []\<rparr>"
      using k(2) by (simp add: zeroItem_def)
    with updateItem_present[OF Decode_null k]
    have "updateItem items ident (Value JNull) =
             (\<lparr>code = 200, body = PItem \<lparr>ID = ident, Name = [], Description = []\<rparr>\<rparr>,
              items[k := \<lparr>ID = ident, Name = [], Description = []\<rparr>])"
      by (simp add: respond_defs)
    with k show "\<exists>k<length items. ID (items ! k) = ident \<and> (\<forall>j<k. ID (items ! j) \<noteq> ident) \<and>
           updateItem items ident (Value JNull) =
             (\<lparr>code = 200, body = PItem \<lparr>ID = ident, Name = [], Description = []\<rparr>\<rparr>,
              items[k := \<lparr>ID = ident, Name = [], Description = []\<rparr>])"
      by blast
  qed
  from c nonempty reads_back upd show ?thesis by (intro conjI)
qed

theorem null_body_is_decodable_witness:
  "createItem main_items (Value JNull) 42 =
     (\<lparr>code = 201, body = PItem \<lparr>ID = ''42'', Name = [], Description = []\<rparr>\<rparr>,
      main_items @ [\<lparr>ID = ''42'', Name = [], Description = []\<rparr>]) \<and>
   Itoa 42 = ''42'' \<and>
   ID (last (snd (createItem main_items (Value JNull) 42))) \<noteq> [] \<and>
   (0::int) \<le> 42 \<and>
   int (decimalValue (ID (last (snd (createItem main_items (Value JNull) 42))))) = 42 \<and>
   ''3'' \<in> ID ` set main_items \<and>
   (\<exists>k<length main_items. ID (main_items ! k) = ''3'' \<and> (\<forall>j<k. ID (main_items ! j) \<noteq> ''3'') \<and>
      updateItem main_items ''3'' (Value JNull) =
        (\<lparr>code = 200, body = PItem \<lparr>ID = ''3'', Name = [], Description = []\<rparr>\<rparr>,
         main_items[k := \<lparr>ID = ''3'', Name = [], Description = []\<rparr>]))"
proof -
  have h: "''3'' \<in> ID ` set main_items" by (simp add: main_items_def)
  have h0: "(0::int) \<le> 42" by simp
  have hI: "Itoa 42 = ''42''" by (simp add: itoa_defs)
  note t = null_body_is_decodable[of main_items 42 "''3''"]
  from t have c: "createItem main_items (Value JNull) 42 =
     (\<lparr>code = 201, body = PItem \<lparr>ID = Itoa 42, Name = [], Description = []\<rparr>\<rparr>,
      main_items @ [\<lparr>ID = Itoa 42, Name = [], Description = []\<rparr>])"
    by (rule conjunct1)
  have c': "createItem main_items (Value JNull) 42 =
     (\<lparr>code = 201, body = PItem \<lparr>ID = ''42'', Name = [], Description = []\<rparr>\<rparr>,
      main_items @ [\<lparr>ID = ''42'', Name = [], Description = []\<rparr>])"
    by (simp only: c hI)
  from t h h0 hI c' show ?thesis by blast
qed

subsection \<open>The shape of a generated id\<close>

text \<open>
  Claim C8. \<open>rand.Intn(1000000)\<close> returns a number \<open>r\<close> with \<open>0 \<le> r < 1000000\<close>. For such a
  number and a body that decodes, the id of the item that \<open>createItem\<close> stores is the
  decimal representation of \<open>r\<close>: it reads back as \<open>r\<close>, is not empty, has at most six
  characters, all of them digits, and begins with \<open>0\<close> only when it is the string \<open>0\<close>.
\<close>

theorem createItem_id_is_decimal:
  assumes "0 \<le> r" and "r < 1000000" and "Decode b zeroItem = Inr item"
  shows "\<exists>it. createItem items b r = (\<lparr>code = 201, body = PItem it\<rparr>, items @ [it]) \<and>
           ID it = Itoa r \<and>
           int (decimalValue (ID it)) = r \<and>
           ID it \<noteq> [] \<and> length (ID it) \<le> 6 \<and>
           (\<forall>c\<in>set (ID it). c \<in> set ''0123456789'') \<and>
           (hd (ID it) = CHR ''0'' \<longrightarrow> ID it = ''0'')"
proof -
  let ?it = "item\<lparr>ID := Itoa r\<rparr>"
  from assms(1) have itoa: "Itoa r = formatBits (nat r)" by (simp add: Itoa_def)
  have "createItem items b r = (\<lparr>code = 201, body = PItem ?it\<rparr>, items @ [?it])"
    using createItem_decodable[OF assms(3)] by (simp add: respond_defs)
  moreover have "ID ?it = Itoa r" by simp
  moreover have "int (decimalValue (ID ?it)) = r"
    using assms(1) by (simp add: itoa formatBits_value)
  moreover have "ID ?it \<noteq> []" by (simp add: itoa formatBits_nonempty)
  moreover have "length (ID ?it) \<le> 6"
  proof -
    from assms(1,2) have "nat r < 10 ^ 6" by simp
    then have "length (formatBits (nat r)) \<le> 6" by (intro formatBits_length) simp_all
    then show ?thesis by (simp add: itoa)
  qed
  moreover have "\<forall>c\<in>set (ID ?it). c \<in> set ''0123456789''"
  proof
    fix c assume "c \<in> set (ID ?it)"
    then have "c \<in> set (formatBits (nat r))" by (simp add: itoa)
    then show "c \<in> set ''0123456789''" by (rule formatBits_digits)
  qed
  moreover have "hd (ID ?it) = CHR ''0'' \<longrightarrow> ID ?it = ''0''"
  proof
    assume z: "hd (ID ?it) = CHR ''0''"
    have "nat r = 0"
    proof (rule ccontr)
      assume "nat r \<noteq> 0"
      then have "hd (formatBits (nat r)) \<noteq> CHR ''0''" by (intro formatBits_hd) simp
      with z show False by (simp add: itoa)
    qed
    then show "ID ?it = ''0''" by (simp add: itoa formatBits_0)
  qed
  ultimately show ?thesis by blast
qed

theorem createItem_id_is_decimal_witness:
  "(0::int) \<le> 999999 \<and> (999999::int) < 1000000 \<and>
   Decode (Value (JObject [(''name'', JString ''New Item''),
                           (''description'', JString ''A new test item'')])) zeroItem =
     Inr \<lparr>ID = [], Name = ''New Item'', Description = ''A new test item''\<rparr> \<and>
   Itoa 999999 = ''999999'' \<and>
   (\<exists>it. createItem main_items
            (Value (JObject [(''name'', JString ''New Item''),
                             (''description'', JString ''A new test item'')])) 999999 =
          (\<lparr>code = 201, body = PItem it\<rparr>, main_items @ [it]) \<and>
      ID it = Itoa 999999 \<and>
      int (decimalValue (ID it)) = 999999 \<and>
      ID it \<noteq> [] \<and> length (ID it) \<le> 6 \<and>
      (\<forall>c\<in>set (ID it). c \<in> set ''0123456789'') \<and>
      (hd (ID it) = CHR ''0'' \<longrightarrow> ID it = ''0''))"
proof -
  have h1: "(0::int) \<le> 999999" by simp
  have h2: "(999999::int) < 1000000" by simp
  have h3: "Decode (Value (JObject [(''name'', JString ''New Item''),
                           (''description'', JString ''A new test item'')])) zeroItem =
     Inr \<lparr>ID = [], Name = ''New Item'', Description = ''A new test item''\<rparr>"
    by (simp add: decode_defs)
  have h4: "Itoa 999999 = ''999999''" by (simp add: itoa_defs)
  from createItem_id_is_decimal[OF h1 h2 h3, of main_items] h1 h2 h3 h4
  show ?thesis by blast
qed

subsection \<open>Creating an item\<close>

text \<open>
  Claim C1, as the code has it. For a body that decodes, \<open>createItem\<close> answers 201 with
  the stored item, which is appended at the end of the collection and carries the
  decoded name and description and, as its id, the decimal string of the number drawn.
  Nothing compares this id with the ids already there: it differs from all of them
  exactly when the string drawn is not among them.
\<close>

theorem createItem_assigns_drawn_id:
  assumes "Decode b zeroItem = Inr item"
  shows "\<exists>it. createItem items b r = (\<lparr>code = 201, body = PItem it\<rparr>, items @ [it]) \<and>
           it = \<lparr>ID = Itoa r, Name = Name item, Description = Description item\<rparr> \<and>
           ((\<forall>x\<in>set items. ID x \<noteq> ID it) \<longleftrightarrow> Itoa r \<notin> ID ` set items)"
proof -
  let ?it = "item\<lparr>ID := Itoa r\<rparr>"
  have "createItem items b r = (\<lparr>code = 201, body = PItem ?it\<rparr>, items @ [?it])"
    using createItem_decodable[OF assms] by (simp add: respond_defs)
  moreover have "?it = \<lparr>ID = Itoa r, Name = Name item, Description = Description item\<rparr>"
    by simp
  moreover have "(\<forall>x\<in>set items. ID x \<noteq> ID ?it) \<longleftrightarrow> Itoa r \<notin> ID ` set items"
    by (simp add: image_iff) metis
  ultimately show ?thesis by blast
qed

theorem createItem_assigns_drawn_id_witness:
  "Decode (Value (JObject [(''name'', JString ''New Item''),
                           (''description'', JString ''A new test item'')])) zeroItem =
     Inr \<lparr>ID = [], Name = ''New Item'', Description = ''A new test item''\<rparr> \<and>
   Itoa 42 \<notin> ID ` set main_items \<and>
   (\<exists>it. createItem main_items
            (Value (JObject [(''name'', JString ''New Item''),
                             (''description'', JString ''A new test item'')])) 42 =
          (\<lparr>code = 201, body = PItem it\<rparr>, main_items @ [it]) \<and>
      it = \<lparr>ID = Itoa 42,
             Name = Name \<lparr>ID = [], Name = ''New Item'', Description = ''A new test item''\<rparr>,
             Description = Description \<lparr>ID = [], Name = ''New Item'', Description = ''A new test item''\<rparr>\<rparr> \<and>
      ((\<forall>x\<in>set main_items. ID x \<noteq> ID it) \<longleftrightarrow> Itoa 42 \<notin> ID ` set main_items))"
proof -
  have h1: "Decode (Value (JObject [(''name'', JString ''New Item''),
                           (''description'', JString ''A new test item'')])) zeroItem =
     Inr \<lparr>ID = [], Name = ''New Item'', Description = ''A new test item''\<rparr>"
    by (simp add: decode_defs)
  have h2: "Itoa 42 \<notin> ID ` set main_items" by (simp add: itoa_defs main_items_def)
  from createItem_assigns_drawn_id[OF h1, of main_items 42] h1 h2 show ?thesis by blast
qed

text \<open>
  The claim as stated fails on the seeded collection: when the number drawn is 1, the
  new item gets the id of the first seeded item.
\<close>

theorem createItem_id_collision:
  "createItem main_items
     (Value (JObject [(''name'', JString ''New Item''),
                      (''description'', JString ''A new test item'')])) 1 =
     (\<lparr>code = 201,
       body = PItem \<lparr>ID = ''1'', Name = ''New Item'', Description = ''A new test item''\<rparr>\<rparr>,
      main_items @ [\<lparr>ID = ''1'', Name = ''New Item'', Description = ''A new test item''\<rparr>]) \<and>
   ID (main_items ! 0) = ''1''"
  by (simp add: createItem_def Let_def decode_defs itoa_defs respond_defs main_items_def)

subsection \<open>One item per id\<close>

lemma snd_getItem: "snd (getItem items ident) = items"
  by (simp add: getItem_def split: option.split)

lemma map_ID_updateItem: "map ID (snd (updateItem items ident b)) = map ID items"
proof (cases "Decode b zeroItem")
  case (Inl e)
  then show ?thesis by (simp add: updateItem_undecodable)
next
  case (Inr u)
  show ?thesis
  proof (cases "ident \<in> ID ` set items")
    case True
    from first_match[OF True] obtain k where
      k: "k < length items" "ID (items ! k) = ident" "\<forall>j<k. ID (items ! j) \<noteq> ident"
      by blast
    have "(map ID items)[k := ID (items ! k)] = map ID items"
      using k(1) by (simp add: list_update_same_conv)
    then show ?thesis by (simp add: updateItem_present[OF Inr k] map_update)
  next
    case False
    then show ?thesis by (simp add: updateItem_absent[OF Inr])
  qed
qed

lemma distinct_deleteItem:
  assumes "distinct (map ID items)"
  shows "distinct (map ID (snd (deleteItem items ident)))"
proof (cases "ident \<in> ID ` set items")
  case True
  from first_match[OF True] obtain k where
    k: "k < length items" "ID (items ! k) = ident" "\<forall>j<k. ID (items ! j) \<noteq> ident"
    by blast
  have "set (take k (map ID items)) \<inter> set (drop (Suc k) (map ID items)) = {}"
    using assms by (intro set_take_disj_set_drop_if_distinct) simp_all
  with assms have "distinct (take k (map ID items) @ drop (Suc k) (map ID items))"
    by simp
  then show ?thesis by (simp add: deleteItem_present[OF k] take_map drop_map)
next
  case False
  with assms show ?thesis by (simp add: deleteItem_absent)
qed

lemma distinct_createItem:
  assumes "distinct (map ID items)"
  shows "distinct (map ID (snd (createItem items b r))) \<longleftrightarrow>
         (isl (Decode b zeroItem) \<or> Itoa r \<notin> ID ` set items)"
proof (cases "Decode b zeroItem")
  case (Inl e)
  with assms show ?thesis by (simp add: createItem_undecodable)
next
  case (Inr item)
  with assms show ?thesis by (simp add: createItem_decodable)
qed

text \<open>
  Claim C2, as the code has it. No two of the items that \<open>main\<close> seeds share an id. From
  a collection without two items of the same id, \<open>getItems\<close>, \<open>getItem\<close>, \<open>updateItem\<close> and
  \<open>deleteItem\<close> lead to such a collection again, and \<open>createItem\<close> does so exactly when
  the body does not decode or the decimal string of the number drawn is not yet an id of
  the collection.
\<close>

theorem unique_ids_preserved:
  "distinct (map ID main_items) \<and>
   (distinct (map ID items) \<longrightarrow>
      distinct (map ID (snd (getItems items))) \<and>
      distinct (map ID (snd (getItem items ident))) \<and>
      distinct (map ID (snd (updateItem items ident b))) \<and>
      distinct (map ID (snd (deleteItem items ident))) \<and>
      (distinct (map ID (snd (createItem items b r))) \<longleftrightarrow>
         (isl (Decode b zeroItem) \<or> Itoa r \<notin> ID ` set items)))"
proof (intro conjI impI)
  show "distinct (map ID main_items)" by (simp add: main_items_def)
next
  assume "distinct (map ID items)"
  then show "distinct (map ID (snd (getItems items)))" by (simp add: getItems_def)
next
  assume "distinct (map ID items)"
  then show "distinct (map ID (snd (getItem items ident)))" by (simp add: snd_getItem)
next
  assume "distinct (map ID items)"
  then show "distinct (map ID (snd (updateItem items ident b)))" by (simp add: map_ID_updateItem)
next
  assume "distinct (map ID items)"
  then show "distinct (map ID (snd (deleteItem items ident)))" by (rule distinct_deleteItem)
next
  assume "distinct (map ID items)"
  then show "distinct (map ID (snd (createItem items b r))) \<longleftrightarrow>
         (isl (Decode b zeroItem) \<or> Itoa r \<notin> ID ` set items)" by (rule distinct_createItem)
qed

theorem unique_ids_preserved_witness:
  "distinct (map ID main_items) \<and>
   distinct (map ID (snd (getItems main_items))) \<and>
   distinct (map ID (snd (getItem main_items ''2''))) \<and>
   distinct (map ID (snd (updateItem main_items ''2'' (Value (JObject [(''name'', JString ''New Item'')]))))) \<and>
   distinct (map ID (snd (deleteItem main_items ''2''))) \<and>
   (distinct (map ID (snd (createItem main_items (Value (JObject [(''name'', JString ''New Item'')])) 42))) \<longleftrightarrow>
      (isl (Decode (Value (JObject [(''name'', JString ''New Item'')])) zeroItem) \<or>
       Itoa 42 \<notin> ID ` set main_items)) \<and>
   Itoa 42 \<notin> ID ` set main_items"
proof -
  have h: "distinct (map ID main_items)" by (simp add: main_items_def)
  have h2: "Itoa 42 \<notin> ID ` set main_items" by (simp add: itoa_defs main_items_def)
  from unique_ids_preserved[of main_items "''2''" "Value (JObject [(''name'', JString ''New Item'')])" 42]
    h h2
  show ?thesis by blast
qed

text \<open>
  The claim as stated fails for \<open>createItem\<close>: on the seeded collection, a draw of 1
  leads to a collection with two items of id \<open>1\<close>.
\<close>

theorem unique_ids_broken_by_create:
  "distinct (map ID main_items) \<and>
   \<not> distinct (map ID (snd (createItem main_items
        (Value (JObject [(''name'', JString ''New Item''),
                         (''description'', JString ''A new test item'')])) 1)))"
  by (simp add: createItem_def Let_def decode_defs itoa_defs respond_defs main_items_def)

end
